theory Spec2Isabelle
  imports Complex_Main
begin

section \<open>Surface and trajectory generators of the two wireframe scripts\<close>

text \<open>
  The two scripts compute with NumPy arrays of double-precision numbers. The embedding
  idealises them as lists of real numbers: a one-dimensional array is a \<open>real list\<close>, a
  vectorised expression is a \<open>map\<close> over it, and rounding is not modelled. The Python
  integers \<open>trajectory_id\<close> and \<open>num_points\<close> are \<open>int\<close>. Exceptions are values of the
  type \<open>error\<close>.
\<close>

datatype error = ValueError | RuntimeError

subsection \<open>Topology variant: \<open>constraint_surface\<close>\<close>

text \<open>The scalar formula of \<open>constraint_surface(t, y)\<close>, applied by NumPy to every element.\<close>

definition constraint_surface :: "real \<Rightarrow> real \<Rightarrow> real" where
  "constraint_surface t y =
     (let t_norm = t / 30.0;
          y_norm = y * 2.0
      in 0.5 * sin (t_norm * 0.8) * cos (y_norm * 0.6) +
         0.3 * cos (t_norm * 1.5 + y_norm * 1.2) +
         0.2 * sin (t_norm * 3.0 - y_norm * 2.0) +
         0.25 * sin (t_norm * 2.0) * sin (y_norm * 1.5) +
         - 0.15 * ((t_norm - 3.0)\<^sup>2 + (y_norm - 2.0)\<^sup>2) * 0.05)"

text \<open>\<open>constraint_surface\<close> on two arrays of the same length, element by element.\<close>

definition constraint_surface_arr :: "real list \<Rightarrow> real list \<Rightarrow> real list" where
  "constraint_surface_arr ts ys = map (\<lambda>(t, y). constraint_surface t y) (zip ts ys)"

text \<open>
  The reading of the specification: a sum of five closed-form terms in the normalised
  coordinates \<open>a = t / 30\<close> and \<open>b = y * 2\<close>, the radial term with the single combined
  coefficient \<open>-0.0075\<close>.
\<close>

definition topology_terms_spec :: "(real \<Rightarrow> real \<Rightarrow> real) list" where
  "topology_terms_spec =
     [\<lambda>a b. 0.5 * sin (a * 0.8) * cos (b * 0.6),
      \<lambda>a b. 0.3 * cos (a * 1.5 + b * 1.2),
      \<lambda>a b. 0.2 * sin (a * 3.0 - b * 2.0),
      \<lambda>a b. 0.25 * sin (a * 2.0) * sin (b * 1.5),
      \<lambda>a b. - 0.0075 * ((a - 3.0)\<^sup>2 + (b - 2.0)\<^sup>2)]"

definition constraint_surface_spec :: "real \<Rightarrow> real \<Rightarrow> real" where
  "constraint_surface_spec t y = sum_list (map (\<lambda>f. f (t / 30) (y * 2)) topology_terms_spec)"

subsection \<open>Feltness variant: \<open>feltness_surface\<close>\<close>

definition feltness_surface :: "real \<Rightarrow> real \<Rightarrow> real" where
  "feltness_surface embodiment persistence =
     (let base = 0.3 * embodiment + 0.3 * persistence;
          synergy = 0.5 * embodiment * persistence;
          uncanny_dip = - 0.3 * exp (- ((embodiment - 0.6)\<^sup>2 / 0.05 + (persistence - 0.2)\<^sup>2 / 0.08));
          ava_peak = 0.2 * exp (- ((embodiment - 0.85)\<^sup>2 / 0.03 + (persistence - 0.5)\<^sup>2 / 0.05));
          pet_peak = 0.15 * exp (- ((embodiment - 0.6)\<^sup>2 / 0.04 + (persistence - 0.8)\<^sup>2 / 0.04));
          human_peak = 0.3 * exp (- ((embodiment - 0.95)\<^sup>2 / 0.02 + (persistence - 0.95)\<^sup>2 / 0.02));
          tool_valley = - 0.1 * exp (- ((embodiment - 0.1)\<^sup>2 / 0.05 + (persistence - 0.1)\<^sup>2 / 0.05));
          ripples = 0.05 * sin (embodiment * 8) * cos (persistence * 6) +
                    0.03 * sin (embodiment * 12 + persistence * 10)
      in base + synergy + uncanny_dip + ava_peak + pet_peak + human_peak + tool_valley + ripples)"





subsection \<open>Library functions used by the trajectory generator\<close>

text \<open>
  \<open>numpy.linspace(start, stop, num)\<close> with the default \<open>endpoint=True\<close>: a negative \<open>num\<close>
  raises \<open>ValueError\<close>; otherwise the samples are \<open>arange(0, num) * step + start\<close> with
  \<open>step = (stop - start) / (num - 1)\<close> when \<open>num - 1 > 0\<close> (and \<open>arange(0, num) * (stop - start)
  + start\<close> when not), and the last sample is overwritten with \<open>stop\<close> when \<open>num > 1\<close>.
\<close>

definition linspace :: "real \<Rightarrow> real \<Rightarrow> int \<Rightarrow> error + real list" where
  "linspace start stop num =
     (if num < 0 then Inl ValueError
      else
        let div' = num - 1;
            y = map real [0..<nat num];
            delta = stop - start;
            y = (if div' > 0 then map (\<lambda>v. v * (delta / real_of_int div')) y
                 else map (\<lambda>v. v * delta) y);
            y = map (\<lambda>v. v + start) y
        in Inr (if num > 1 then y[nat num - 1 := stop] else y))"

text \<open>\<open>numpy.clip(a, a_min, a_max)\<close>: \<open>minimum(a_max, maximum(a, a_min))\<close> on every element.\<close>

definition clip :: "real list \<Rightarrow> real \<Rightarrow> real \<Rightarrow> real list" where
  "clip a a_min a_max = map (\<lambda>v. min a_max (max v a_min)) a"

text \<open>
  The boundary mode \<open>reflect\<close> of \<open>scipy.ndimage\<close>: an array \<open>a b c d\<close> of length \<open>n\<close> is
  extended on both sides as \<open>d c b a | a b c d | d c b a\<close>, repeated as far as needed.
  \<open>reflect_index n j\<close> is the position in the array that the extended position \<open>j\<close> reads.
\<close>

definition reflect_index :: "int \<Rightarrow> int \<Rightarrow> nat" where
  "reflect_index n j =
     (let m = j mod (2 * n)
      in nat (if m < n then m else 2 * n - 1 - m))"

text \<open>
  \<open>scipy.ndimage.uniform_filter1d(input, size)\<close> with the defaults \<open>mode='reflect'\<close> and
  \<open>origin=0\<close>: a \<open>size\<close> below 1 raises \<open>RuntimeError\<close>; otherwise output position \<open>i\<close> is the
  mean of the \<open>size\<close> extended positions \<open>i - size // 2, ..., i - size // 2 + size - 1\<close>.
\<close>

definition uniform_filter1d :: "real list \<Rightarrow> int \<Rightarrow> error + real list" where
  "uniform_filter1d input size' =
     (if size' < 1 then Inl RuntimeError
      else
        let n = int (length input)
        in Inr (map (\<lambda>i. sum_list (map (\<lambda>k. input ! reflect_index n (int i - size' div 2 + int k))
                                      [0..<nat size'])
                          / real_of_int size')
                    [0..<length input]))"

subsection \<open>Trajectory generator: \<open>generate_trajectory_through_landscape\<close>\<close>

definition generate_trajectory_through_landscape ::
    "int \<Rightarrow> int \<Rightarrow> error + (real list \<times> real list \<times> real list)" where
  "generate_trajectory_through_landscape trajectory_id num_points =
     (case linspace 0 180 num_points of
        Inl e \<Rightarrow> Inl e
      | Inr t \<Rightarrow>
          let y_start = 1.0 + real_of_int (trajectory_id - 2) * 0.2;
              base_freq = 0.015;
              phase = real_of_int trajectory_id * 0.8;
              amplitude = 0.4;
              y = map (\<lambda>v. y_start + amplitude * sin (base_freq * v + phase)) t;
              drift = map (\<lambda>v. real_of_int (trajectory_id - 2) * 0.1 * (v / 180.0)) t;
              y = map (\<lambda>(v, d). v + d) (zip y drift);
              y = clip y 0.2 1.8
          in (case uniform_filter1d y 10 of
                Inl e \<Rightarrow> Inl e
              | Inr y \<Rightarrow>
                  let z = map (\<lambda>v. v + 0.15) (constraint_surface_arr t y)
                  in Inr (t, y, z)))"

section \<open>Properties of the surface generators\<close>

subsection \<open>Auxiliary bounds\<close>

lemma sin_cos_bound: "\<bar>sin (a::real) * cos b\<bar> \<le> 1"
  by (simp add: abs_mult mult_le_one)

lemma sin_sin_bound: "\<bar>sin (a::real) * sin b\<bar> \<le> 1"
  by (simp add: abs_mult mult_le_one)

lemma scaled_bound:
  fixes c x :: real
  assumes "0 \<le> c" "\<bar>x\<bar> \<le> 1"
  shows "\<bar>c * x\<bar> \<le> c"
  using assms mult_left_le[of "\<bar>x\<bar>" c] by (simp add: abs_mult mult.commute)

lemma scaled_bound2:
  fixes c x y :: real
  assumes "0 \<le> c" "\<bar>x * y\<bar> \<le> 1"
  shows "\<bar>c * x * y\<bar> \<le> c"
  using scaled_bound[OF assms] by (simp only: mult.assoc)

lemma square_le_of_range:
  fixes x c r :: real
  assumes "c - r \<le> x" "x \<le> c + r"
  shows "0 \<le> (x - c)\<^sup>2 \<and> (x - c)\<^sup>2 \<le> r\<^sup>2"
proof -
  have "\<bar>x - c\<bar> \<le> \<bar>r\<bar>" using assms by linarith
  then show ?thesis by (simp add: abs_le_square_iff)
qed

lemma gaussian_le_one:
  fixes a b ca cb wa wb :: real
  assumes "0 < wa" "0 < wb"
  shows "exp (- ((a - ca)\<^sup>2 / wa + (b - cb)\<^sup>2 / wb)) \<le> 1"
proof -
  have "0 \<le> (a - ca)\<^sup>2 / wa" "0 \<le> (b - cb)\<^sup>2 / wb"
    using assms by simp_all
  then have "- ((a - ca)\<^sup>2 / wa + (b - cb)\<^sup>2 / wb) \<le> 0"
    by linarith
  then show ?thesis
    by (simp only: exp_le_one_iff)
qed

subsection \<open>Topology variant\<close>

text \<open>
  C3: \<open>constraint_surface\<close> maps \<open>(t, y)\<close> to exactly the sum of the five closed-form terms of
  the specification in the normalised coordinates \<open>t / 30\<close> and \<open>y * 2\<close>; the radial term
  \<open>-0.15 * (...) * 0.05\<close> of the code is the term with the combined coefficient \<open>-0.0075\<close>.
\<close>

theorem constraint_surface_five_terms:
  "constraint_surface t y = constraint_surface_spec t y \<and> length topology_terms_spec = 5"
  by (simp add: constraint_surface_def constraint_surface_spec_def topology_terms_spec_def Let_def)

lemma sum5_bounds:
  fixes T1 T2 T3 T4 T5 :: real
  assumes "\<bar>T1\<bar> \<le> 0.5" "\<bar>T2\<bar> \<le> 0.3" "\<bar>T3\<bar> \<le> 0.2" "\<bar>T4\<bar> \<le> 0.25"
    and "- 0.0975 \<le> T5" "T5 \<le> 0"
  shows "- 1.5 \<le> T1 + T2 + T3 + T4 + T5 \<and> T1 + T2 + T3 + T4 + T5 \<le> 1.5"
proof -
  have "\<bar>T1\<bar> \<le> 1 / 2" "\<bar>T2\<bar> \<le> 3 / 10" "\<bar>T3\<bar> \<le> 1 / 5" "\<bar>T4\<bar> \<le> 1 / 4"
    and "- (39 / 400) \<le> T5" "T5 \<le> 0"
    using assms by simp_all
  then have "- (3 / 2) \<le> T1 + T2 + T3 + T4 + T5" "T1 + T2 + T3 + T4 + T5 \<le> 3 / 2"
    by linarith+
  then show ?thesis
    by simp
qed

lemma radial_bounds:
  fixes R1 R2 :: real
  assumes "0 \<le> R1" "R1 \<le> 9" "0 \<le> R2" "R2 \<le> 4"
  shows "- 0.0975 \<le> - 0.15 * (R1 + R2) * 0.05" "- 0.15 * (R1 + R2) * 0.05 \<le> 0"
  using assms by simp_all

lemma topology_sum_bounds:
  fixes X1 Y1 C S X4 Y4 R1 R2 :: real
  assumes "\<bar>X1 * Y1\<bar> \<le> 1" "\<bar>C\<bar> \<le> 1" "\<bar>S\<bar> \<le> 1" "\<bar>X4 * Y4\<bar> \<le> 1"
    and "0 \<le> R1" "R1 \<le> 9" "0 \<le> R2" "R2 \<le> 4"
  shows "- 1.5 \<le> 0.5 * X1 * Y1 + 0.3 * C + 0.2 * S + 0.25 * X4 * Y4 + - 0.15 * (R1 + R2) * 0.05
       \<and> 0.5 * X1 * Y1 + 0.3 * C + 0.2 * S + 0.25 * X4 * Y4 + - 0.15 * (R1 + R2) * 0.05 \<le> 1.5"
proof (rule sum5_bounds)
  show "\<bar>0.5 * X1 * Y1\<bar> \<le> 0.5" by (rule scaled_bound2) (use assms in simp_all)
  show "\<bar>0.3 * C\<bar> \<le> 0.3" by (rule scaled_bound) (use assms in simp_all)
  show "\<bar>0.2 * S\<bar> \<le> 0.2" by (rule scaled_bound) (use assms in simp_all)
  show "\<bar>0.25 * X4 * Y4\<bar> \<le> 0.25" by (rule scaled_bound2) (use assms in simp_all)
  show "- 0.0975 \<le> - 0.15 * (R1 + R2) * 0.05" by (rule radial_bounds) (use assms in simp_all)
  show "- 0.15 * (R1 + R2) * 0.05 \<le> 0" by (rule radial_bounds(2)[of R1 R2]) (use assms in simp_all)
qed

text \<open>
  C9: on the rendered domain \<open>0 \<le> t \<le> 180\<close>, \<open>0 \<le> y \<le> 2\<close> the value of
  \<open>constraint_surface\<close> lies within the elevation limits \<open>[-1.5, 1.5]\<close> of the plot: the four
  sinusoidal terms are bounded by their amplitudes \<open>0.5 + 0.3 + 0.2 + 0.25 = 1.25\<close>, and the
  radial term lies in \<open>[-0.0975, 0]\<close> there.
\<close>

theorem constraint_surface_within_zlim:
  assumes "0 \<le> t" "t \<le> 180" "0 \<le> y" "y \<le> 2"
  shows "- 1.5 \<le> constraint_surface t y \<and> constraint_surface t y \<le> 1.5"
proof -
  have "0 \<le> (t / 30.0 - 3.0)\<^sup>2 \<and> (t / 30.0 - 3.0)\<^sup>2 \<le> 3\<^sup>2"
    by (rule square_le_of_range) (use assms in simp_all)
  then have r1: "0 \<le> (t / 30.0 - 3.0)\<^sup>2" "(t / 30.0 - 3.0)\<^sup>2 \<le> 9" by simp_all
  have "0 \<le> (y * 2.0 - 2.0)\<^sup>2 \<and> (y * 2.0 - 2.0)\<^sup>2 \<le> 2\<^sup>2"
    by (rule square_le_of_range) (use assms in simp_all)
  then have r2: "0 \<le> (y * 2.0 - 2.0)\<^sup>2" "(y * 2.0 - 2.0)\<^sup>2 \<le> 4" by simp_all
  show ?thesis
    unfolding constraint_surface_def Let_def
    by (rule topology_sum_bounds)
       (simp_all only: sin_cos_bound sin_sin_bound abs_sin_le_one abs_cos_le_one r1 r2)
qed

theorem constraint_surface_within_zlim_witness:
  "(0::real) \<le> 0 \<and> (0::real) \<le> 180 \<and> (0::real) \<le> 2 \<and>
   - 1.5 \<le> constraint_surface 0 0 \<and> constraint_surface 0 0 \<le> 1.5"
  using constraint_surface_within_zlim[of 0 0] by simp

subsection \<open>Feltness variant\<close>



lemma feltness_sum_lower:
  fixes b s U A Q H T X Y S :: real
  assumes "U \<le> 1" "0 \<le> A" "0 \<le> Q" "T \<le> 1" "\<bar>X * Y\<bar> \<le> 1" "\<bar>S\<bar> \<le> 1"
  shows "b + s - 0.48 + 0.3 * H
           \<le> b + s + - 0.3 * U + 0.2 * A + 0.15 * Q + 0.3 * H + - 0.1 * T + (0.05 * X * Y + 0.03 * S)"
proof -
  have "0.05 * X * Y = 0.05 * (X * Y)" by simp
  then show ?thesis using assms by simp
qed

lemma feltness_sum_upper:
  fixes b s U A Q H T X Y S :: real
  assumes "0 \<le> U" "A \<le> 1" "Q \<le> 1" "H \<le> 1" "0 \<le> T" "\<bar>X * Y\<bar> \<le> 1" "\<bar>S\<bar> \<le> 1"
  shows "b + s + - 0.3 * U + 0.2 * A + 0.15 * Q + 0.3 * H + - 0.1 * T + (0.05 * X * Y + 0.03 * S)
           \<le> b + s + 0.73"
proof -
  have "0.05 * X * Y = 0.05 * (X * Y)" by simp
  then show ?thesis using assms by simp
qed

text \<open>
  A lower bound of the surface that keeps the human peak, and an upper bound: every
  Gaussian factor lies in \<open>(0, 1]\<close> and the ripples in \<open>[-0.08, 0.08]\<close>.
\<close>

lemma feltness_lower:
  "0.3 * e + 0.3 * p + 0.5 * e * p - 0.48 +
     0.3 * exp (- ((e - 0.95)\<^sup>2 / 0.02 + (p - 0.95)\<^sup>2 / 0.02)) \<le> feltness_surface e p"
  unfolding feltness_surface_def Let_def
proof (rule feltness_sum_lower)
  show "exp (- ((e - 0.6)\<^sup>2 / 0.05 + (p - 0.2)\<^sup>2 / 0.08)) \<le> 1"
    by (rule gaussian_le_one) simp_all
  show "exp (- ((e - 0.1)\<^sup>2 / 0.05 + (p - 0.1)\<^sup>2 / 0.05)) \<le> 1"
    by (rule gaussian_le_one) simp_all
qed (simp_all only: exp_ge_zero sin_cos_bound abs_sin_le_one)

lemma feltness_upper:
  "feltness_surface e p \<le> 0.3 * e + 0.3 * p + 0.5 * e * p + 0.73"
  unfolding feltness_surface_def Let_def
proof (rule feltness_sum_upper)
  show "exp (- ((e - 0.85)\<^sup>2 / 0.03 + (p - 0.5)\<^sup>2 / 0.05)) \<le> 1"
    by (rule gaussian_le_one) simp_all
  show "exp (- ((e - 0.6)\<^sup>2 / 0.04 + (p - 0.8)\<^sup>2 / 0.04)) \<le> 1"
    by (rule gaussian_le_one) simp_all
  show "exp (- ((e - 0.95)\<^sup>2 / 0.02 + (p - 0.95)\<^sup>2 / 0.02)) \<le> 1"
    by (rule gaussian_le_one) simp_all
qed (simp_all only: exp_ge_zero sin_cos_bound abs_sin_le_one)

text \<open>
  C6: the surface at the human-friend point \<open>(0.95, 0.95)\<close> is strictly above the surface
  at the tool point \<open>(0.05, 0.05)\<close>: the former is at least \<open>0.84125\<close>, the latter at most
  \<open>0.76125\<close>.
\<close>

theorem feltness_human_friend_above_tool:
  "feltness_surface 0.05 0.05 < feltness_surface 0.95 0.95"
proof -
  have "feltness_surface 0.05 0.05 \<le> 0.3 * 0.05 + 0.3 * 0.05 + 0.5 * 0.05 * 0.05 + 0.73"
    by (rule feltness_upper)
  also have "\<dots> < 0.3 * 0.95 + 0.3 * 0.95 + 0.5 * 0.95 * 0.95 - 0.48 +
      0.3 * exp (- ((0.95 - 0.95)\<^sup>2 / 0.02 + (0.95 - 0.95)\<^sup>2 / 0.02))"
    by simp
  also have "\<dots> \<le> feltness_surface 0.95 0.95"
    by (rule feltness_lower)
  finally show ?thesis .
qed

section \<open>Properties of the trajectory generator\<close>

subsection \<open>\<open>linspace\<close>\<close>

lemma linspace_nonneg:
  assumes "0 \<le> num"
  shows "\<exists>xs. linspace start stop num = Inr xs \<and> length xs = nat num"
  using assms by (simp add: linspace_def Let_def)

lemma linspace_one: "linspace start stop 1 = Inr [start]"
  by (simp add: linspace_def Let_def)






subsection \<open>Clamping and smoothing\<close>

lemma clip_within:
  assumes "a_min \<le> a_max"
  shows "list_all (\<lambda>v. a_min \<le> v \<and> v \<le> a_max) (clip a a_min a_max)"
  using assms by (simp add: clip_def list_all_iff)

lemma length_clip: "length (clip a a_min a_max) = length a"
  by (simp add: clip_def)

lemma reflect_index_less:
  assumes "0 < n"
  shows "reflect_index n j < nat n"
proof -
  have "0 \<le> j mod (2 * n)" "j mod (2 * n) < 2 * n"
    using assms by simp_all
  then show ?thesis
    using assms by (auto simp: reflect_index_def Let_def)
qed

lemma reflect_index_one: "reflect_index 1 j = 0"
  using reflect_index_less[of 1 j] by simp

lemma sum_list_bounds:
  fixes f :: "'a \<Rightarrow> real"
  assumes "\<forall>k\<in>set ks. lo \<le> f k \<and> f k \<le> hi"
  shows "real (length ks) * lo \<le> sum_list (map f ks) \<and> sum_list (map f ks) \<le> real (length ks) * hi"
  using assms by (induction ks) (auto simp: algebra_simps)

lemma mean_bounds:
  fixes f :: "nat \<Rightarrow> real"
  assumes "1 \<le> s" "\<forall>k. lo \<le> f k \<and> f k \<le> hi"
  shows "lo \<le> sum_list (map f [0..<nat s]) / real_of_int s \<and> sum_list (map f [0..<nat s]) / real_of_int s \<le> hi"
proof -
  have pos: "0 < real_of_int s" using assms by simp
  have len: "real (length [0..<nat s]) = real_of_int s" using assms by simp
  have "real_of_int s * lo \<le> sum_list (map f [0..<nat s]) \<and> sum_list (map f [0..<nat s]) \<le> real_of_int s * hi"
    using sum_list_bounds[of "[0..<nat s]" lo f hi] assms(2) unfolding len by blast
  then show ?thesis
    using pos by (simp add: pos_le_divide_eq pos_divide_le_eq mult.commute)
qed

lemma uniform_filter1d_length:
  assumes "1 \<le> s"
  shows "\<exists>ys. uniform_filter1d xs s = Inr ys \<and> length ys = length xs"
  using assms by (simp add: uniform_filter1d_def Let_def)

lemma uniform_filter1d_bounds:
  assumes "1 \<le> s" "list_all (\<lambda>v. lo \<le> v \<and> v \<le> hi) xs" "uniform_filter1d xs s = Inr ys"
  shows "list_all (\<lambda>v. lo \<le> v \<and> v \<le> hi) ys"
proof -
  have ys: "ys = map (\<lambda>i. sum_list (map (\<lambda>k. xs ! reflect_index (int (length xs)) (int i - s div 2 + int k)) [0..<nat s]) / real_of_int s) [0..<length xs]"
    using assms(1,3) by (simp add: uniform_filter1d_def Let_def)
  show ?thesis
  proof (cases "xs = []")
    case True
    then show ?thesis using ys by simp
  next
    case False
    then have n: "0 < int (length xs)" by simp
    have el: "lo \<le> xs ! reflect_index (int (length xs)) j \<and> xs ! reflect_index (int (length xs)) j \<le> hi" for j
      using reflect_index_less[OF n, of j] assms(2) by (simp add: list_all_length)
    show ?thesis
      unfolding ys list_all_iff
    proof (intro ballI)
      fix v assume "v \<in> set (map (\<lambda>i. sum_list (map (\<lambda>k. xs ! reflect_index (int (length xs)) (int i - s div 2 + int k)) [0..<nat s]) / real_of_int s) [0..<length xs])"
      then obtain i where v: "v = sum_list (map (\<lambda>k. xs ! reflect_index (int (length xs)) (int i - s div 2 + int k)) [0..<nat s]) / real_of_int s"
        by auto
      show "lo \<le> v \<and> v \<le> hi"
        unfolding v by (rule mean_bounds[OF assms(1)]) (simp add: el)
    qed
  qed
qed

lemma uniform_filter1d_single:
  assumes "1 \<le> s"
  shows "uniform_filter1d [v] s = Inr [v]"
proof -
  have "sum_list (map (\<lambda>k. v) [0..<nat s]) = real_of_int s * v"
    using assms by (simp add: sum_list_triv)
  moreover have "real_of_int s \<noteq> 0" using assms by simp
  ultimately show ?thesis
    using assms by (simp add: uniform_filter1d_def Let_def reflect_index_one)
qed

subsection \<open>The generated trajectory\<close>

text \<open>
  Whenever \<open>linspace\<close> returns the time axis \<open>t\<close>, the generator returns \<open>t\<close> unchanged, a
  second sequence of the same length with every value in \<open>[0.2, 1.8]\<close>, and the surface
  above these two, raised by \<open>0.15\<close>.
\<close>

lemma generate_trajectory_shape:
  assumes "linspace 0 180 N = Inr t"
  shows "\<exists>y. generate_trajectory_through_landscape i N =
             Inr (t, y, map (\<lambda>v. v + 0.15) (constraint_surface_arr t y))
           \<and> length y = length t
           \<and> list_all (\<lambda>v. 0.2 \<le> v \<and> v \<le> 1.8) y"
proof -
  define y0 where "y0 = clip (map (\<lambda>(v, d). v + d)
      (zip (map (\<lambda>v. 1.0 + real_of_int (i - 2) * 0.2 + 0.4 * sin (0.015 * v + real_of_int i * 0.8)) t)
           (map (\<lambda>v. real_of_int (i - 2) * 0.1 * (v / 180.0)) t))) 0.2 1.8"
  have len0: "length y0 = length t"
    by (simp add: y0_def length_clip)
  have in0: "list_all (\<lambda>v. 0.2 \<le> v \<and> v \<le> 1.8) y0"
    unfolding y0_def by (rule clip_within) simp
  obtain y where y: "uniform_filter1d y0 10 = Inr y" "length y = length y0"
    using uniform_filter1d_length[of 10 y0] by auto
  have "list_all (\<lambda>v. 0.2 \<le> v \<and> v \<le> 1.8) y"
    by (rule uniform_filter1d_bounds[OF _ in0 y(1)]) simp
  moreover have "generate_trajectory_through_landscape i N =
      Inr (t, y, map (\<lambda>v. v + 0.15) (constraint_surface_arr t y))"
    using assms y(1)
    by (simp add: generate_trajectory_through_landscape_def Let_def y0_def)
  ultimately show ?thesis
    using y(2) len0 by auto
qed





text \<open>
  C2: for every trajectory index (in particular \<open>0\<close> to \<open>4\<close>) and every positive point
  count \<open>N\<close> the generator returns \<open>N\<close> axis-2 values, each of them, after clamping and
  smoothing, within \<open>[0.2, 1.8]\<close>.
\<close>

theorem axis2_within_clamp:
  assumes "0 < N"
  shows "\<exists>t y z. generate_trajectory_through_landscape i N = Inr (t, y, z)
           \<and> length y = nat N \<and> list_all (\<lambda>v. 0.2 \<le> v \<and> v \<le> 1.8) y"
proof -
  obtain t where t: "linspace 0 180 N = Inr t" "length t = nat N"
    using linspace_nonneg[of N 0 180] assms by auto
  show ?thesis
    using generate_trajectory_shape[OF t(1), of i] t(2) by auto
qed

theorem axis2_within_clamp_witness:
  "(0::int) < 200 \<and>
   (\<exists>t y z. generate_trajectory_through_landscape 2 200 = Inr (t, y, z)
      \<and> length y = nat 200 \<and> list_all (\<lambda>v. 0.2 \<le> v \<and> v \<le> 1.8) y)"
  using axis2_within_clamp[of 200 2] by simp

text \<open>
  C5: for every trajectory index and positive point count \<open>N\<close>, the three returned
  sequences have \<open>N\<close> entries each and every elevation value is \<open>constraint_surface\<close> at the
  axis-1 and axis-2 values of the same position, plus \<open>0.15\<close>.
\<close>

theorem elevation_follows_surface:
  assumes "0 < N"
  shows "\<exists>t y z. generate_trajectory_through_landscape i N = Inr (t, y, z)
           \<and> length t = nat N \<and> length y = nat N
           \<and> z = map (\<lambda>(a, b). constraint_surface a b + 0.15) (zip t y)"
proof -
  obtain t where t: "linspace 0 180 N = Inr t" "length t = nat N"
    using linspace_nonneg[of N 0 180] assms by auto
  obtain y where y: "generate_trajectory_through_landscape i N =
             Inr (t, y, map (\<lambda>v. v + 0.15) (constraint_surface_arr t y))" "length y = length t"
    using generate_trajectory_shape[OF t(1), of i] by auto
  have "map (\<lambda>v. v + 0.15) (constraint_surface_arr t y)
          = map (\<lambda>(a, b). constraint_surface a b + 0.15) (zip t y)"
    by (simp add: constraint_surface_arr_def comp_def case_prod_unfold)
  then show ?thesis
    using t(2) y by simp
qed

theorem elevation_follows_surface_witness:
  "(0::int) < 4 \<and>
   (\<exists>t y z. generate_trajectory_through_landscape 1 4 = Inr (t, y, z)
      \<and> length t = nat 4 \<and> length y = nat 4
      \<and> z = map (\<lambda>(a, b). constraint_surface a b + 0.15) (zip t y))"
  using elevation_follows_surface[of 4 1] by simp

text \<open>
  C7: with \<open>N = 1\<close> the generator returns, for every trajectory index, a single point: time
  \<open>0\<close>, the clamped starting value, and the surface there plus \<open>0.15\<close>. The moving average
  over a one-element array reads that element ten times, and so leaves it unchanged.
\<close>

theorem single_point_trajectory:
  "uniform_filter1d [v] 10 = Inr [v] \<and>
   (let a = min 1.8 (max (1.0 + real_of_int (i - 2) * 0.2 + 0.4 * sin (real_of_int i * 0.8)) 0.2)
    in generate_trajectory_through_landscape i 1 = Inr ([0], [a], [constraint_surface 0 a + 0.15]))"
proof -
  have u: "uniform_filter1d [w] 10 = Inr [w]" for w
    by (rule uniform_filter1d_single) simp
  show ?thesis
    by (simp add: u generate_trajectory_through_landscape_def linspace_one Let_def clip_def
        constraint_surface_arr_def)
qed



end
